theory Spec2Isabelle
  imports Main "HOL-Library.Multiset"
begin

section \<open>Data model (main.py, section 1)\<close>

text \<open>
  Python strings are kept as \<open>string\<close>, the UTF-8 bytes of the text. Python integers are
  unbounded, hence \<open>int\<close>. A nullable column is an \<open>option\<close>.

  The rows of the three tables the operations touch. Field names carry the table's initial
  because record fields share one name space: \<open>a_id\<close>, \<open>a_name\<close> are \<open>Author.id\<close>,
  \<open>Author.name\<close>; \<open>b_id\<close>, \<open>b_title\<close>, \<open>b_author_id\<close> are \<open>Book.id\<close>, \<open>Book.title\<close>,
  \<open>Book.author_id\<close>; \<open>u_id\<close>, \<open>u_username\<close>, \<open>u_email\<close> are the columns of \<open>User\<close>.
  \<open>Book.author_id\<close> is the only nullable column among them.
\<close>

record author =
  a_id :: int
  a_name :: string

record book =
  b_id :: int
  b_title :: string
  b_author_id :: "int option"

record user =
  u_id :: int
  u_username :: string
  u_email :: string

text \<open>
  An object built by a constructor call such as \<open>Book(title=title, author_id=author_id)\<close>
  and not yet flushed: it has no id, and a keyword that was not given is \<open>None\<close>.
\<close>

record book_obj =
  bo_title :: "string option"
  bo_author_id :: "int option"

record user_obj =
  uo_username :: "string option"
  uo_email :: "string option"

text \<open>The content of the database behind \<open>engine\<close>: each table in rowid order.\<close>

record store =
  authors :: "author list"
  books :: "book list"
  users :: "user list"

text \<open>
  The exceptions that occur. \<open>IntegrityError\<close>, \<open>OperationalError\<close> and
  \<open>InvalidRequestError\<close> are subclasses of \<open>SQLAlchemyError\<close>. \<open>OverflowError\<close> is
  Python's own: the SQLite driver raises it when it is handed an integer outside the
  signed 64-bit range, and it reaches the caller as it is, outside the hierarchy of
  \<open>SQLAlchemyError\<close>. \<open>PyException\<close> stands for any other exception outside that
  hierarchy, such as the \<open>Exception\<close> raised at line 213. Each carries the text that
  \<open>str(e)\<close> gives.
\<close>

datatype exc =
    IntegrityError string
  | OperationalError string
  | InvalidRequestError string
  | OverflowError string
  | PyException string

fun is_SQLAlchemyError :: "exc \<Rightarrow> bool" where
  "is_SQLAlchemyError (IntegrityError m) = True"
| "is_SQLAlchemyError (OperationalError m) = True"
| "is_SQLAlchemyError (InvalidRequestError m) = True"
| "is_SQLAlchemyError (OverflowError m) = False"
| "is_SQLAlchemyError (PyException m) = False"

fun str_exc :: "exc \<Rightarrow> string" where
  "str_exc (IntegrityError m) = m"
| "str_exc (OperationalError m) = m"
| "str_exc (InvalidRequestError m) = m"
| "str_exc (OverflowError m) = m"
| "str_exc (PyException m) = m"

section \<open>The store: inserts, deletes, primary keys\<close>

text \<open>
  An \<open>Integer\<close> primary key of SQLite is the rowid: a row inserted without an id gets the
  largest id of the table plus one, and 1 in an empty table. (The model's ids are
  unbounded; SQLite's behaviour at the largest 64-bit rowid is outside it.)
\<close>

fun next_id :: "int list \<Rightarrow> int" where
  "next_id [] = 1"
| "next_id (x # xs) = fold max xs x + 1"

text \<open>
  An integer of SQLite has 64 bits, signed. Python's integers have no bound, and an integer
  outside that range cannot be bound to a parameter of a statement: the driver raises
  \<open>OverflowError\<close> before the database sees the statement.
\<close>

definition in_int64 :: "int \<Rightarrow> bool" where
  "in_int64 k \<longleftrightarrow> - (2 ^ 63) \<le> k \<and> k < 2 ^ 63"

definition overflow_message :: string where
  "overflow_message = ''Python int too large to convert to SQLite INTEGER''"

text \<open>
  \<open>INSERT INTO books\<close>. An \<open>author_id\<close> outside the 64-bit range cannot be bound. The
  column \<open>title\<close> is declared \<open>nullable=False\<close> (line 42), so a missing title violates
  NOT NULL. The column \<open>author_id\<close> is declared \<open>ForeignKey("authors.id")\<close> (line 43),
  but the engine of lines 64-69 is a plain SQLite connection on which foreign-key
  enforcement is never switched on, so the insert does not look at the table \<open>authors\<close>.
\<close>

definition insert_book :: "store \<Rightarrow> book_obj \<Rightarrow> exc + store \<times> book" where
  "insert_book st obj =
     (if (case bo_author_id obj of None \<Rightarrow> False | Some k \<Rightarrow> \<not> in_int64 k)
      then Inl (OverflowError overflow_message)
      else case bo_title obj of
        None \<Rightarrow> Inl (IntegrityError ''NOT NULL constraint failed: books.title'')
      | Some t \<Rightarrow>
          (let row = \<lparr>b_id = next_id (map b_id (books st)), b_title = t,
                      b_author_id = bo_author_id obj\<rparr>
           in Inr (st\<lparr>books := books st @ [row]\<rparr>, row)))"

definition insert_user :: "store \<Rightarrow> user_obj \<Rightarrow> exc + store" where
  "insert_user st obj =
     (case uo_username obj of
        None \<Rightarrow> Inl (IntegrityError ''NOT NULL constraint failed: users.username'')
      | Some n \<Rightarrow>
          (case uo_email obj of
             None \<Rightarrow> Inl (IntegrityError ''NOT NULL constraint failed: users.email'')
           | Some e \<Rightarrow>
               Inr (st\<lparr>users := users st @
                      [\<lparr>u_id = next_id (map u_id (users st)), u_username = n, u_email = e\<rparr>]\<rparr>)))"

text \<open>\<open>DELETE FROM books WHERE books.id = ?\<close>\<close>

definition delete_book_row :: "store \<Rightarrow> int \<Rightarrow> store" where
  "delete_book_row st k = st\<lparr>books := filter (\<lambda>b. b_id b \<noteq> k) (books st)\<rparr>"

text \<open>\<open>SELECT ... FROM books WHERE books.id = ?\<close>: the row with that primary key, if any.\<close>

definition find_book :: "store \<Rightarrow> int \<Rightarrow> book option" where
  "find_book st k = find (\<lambda>b. b_id b = k) (books st)"

section \<open>Sessions (SessionLocal, lines 74-75)\<close>

text \<open>
  A session made by \<open>SessionLocal()\<close>. All sessions share the one connection of the
  \<open>StaticPool\<close>, so the database has two faces: \<open>committed\<close>, its content as of the last
  COMMIT, and \<open>working\<close>, its content inside the transaction in progress. The objects
  given to \<open>session.add\<close> wait in \<open>new_books\<close> and \<open>new_users\<close>, those given to
  \<open>session.delete\<close> in \<open>deleted_books\<close> (by primary key), until a flush. \<open>is_closed\<close>
  records \<open>session.close()\<close>.

  \<open>fault\<close> is the environment: the failure, if any, that the database produces while the
  session works (a lost connection, a conflict, a violated constraint the model does not
  know), given as the kind of statement that fails and the exception it fails with. A
  statement of that kind that would otherwise have gone through raises the exception
  instead. \<open>None\<close> is a database that works.
\<close>

datatype db_op = INSERT | DELETE | SELECT | COMMIT

fun fault_on :: "(db_op \<times> exc) option \<Rightarrow> db_op \<Rightarrow> exc option" where
  "fault_on None op = None"
| "fault_on (Some (op', e)) op = (if op' = op then Some e else None)"

record session =
  committed :: store
  working :: store
  new_books :: "book_obj list"
  new_users :: "user_obj list"
  deleted_books :: "int list"
  is_closed :: bool
  fault :: "(db_op \<times> exc) option"

definition SessionLocal :: "(db_op \<times> exc) option \<Rightarrow> store \<Rightarrow> session" where
  "SessionLocal flt st =
     \<lparr>committed = st, working = st, new_books = [], new_users = [], deleted_books = [],
      is_closed = False, fault = flt\<rparr>"

definition session_add_book :: "book_obj \<Rightarrow> session \<Rightarrow> session" where
  "session_add_book obj s = s\<lparr>new_books := new_books s @ [obj]\<rparr>"

definition session_add_user :: "user_obj \<Rightarrow> session \<Rightarrow> session" where
  "session_add_user obj s = s\<lparr>new_users := new_users s @ [obj]\<rparr>"

definition session_delete_book :: "book \<Rightarrow> session \<Rightarrow> session" where
  "session_delete_book b s = s\<lparr>deleted_books := deleted_books s @ [b_id b]\<rparr>"

text \<open>
  The flush sends the pending statements to the database one at a time, inside the
  transaction: the inserts first, then the deletes. A statement that fails raises (and
  \<open>session_commit\<close> below then undoes the statements before it). The books inserted are
  returned with their new ids. The first argument of the three loops is the failure the
  environment has in store for statements of their kind.
\<close>

fun flush_users :: "exc option \<Rightarrow> user_obj list \<Rightarrow> store \<Rightarrow> exc + store" where
  "flush_users flt [] st = Inr st"
| "flush_users flt (u # us) st =
     (case insert_user st u of
        Inl e \<Rightarrow> Inl e
      | Inr st' \<Rightarrow> (case flt of Some e \<Rightarrow> Inl e | None \<Rightarrow> flush_users flt us st'))"

fun flush_books ::
    "exc option \<Rightarrow> book_obj list \<Rightarrow> store \<Rightarrow> book list \<Rightarrow> exc + store \<times> book list" where
  "flush_books flt [] st acc = Inr (st, acc)"
| "flush_books flt (b # bs) st acc =
     (case insert_book st b of
        Inl e \<Rightarrow> Inl e
      | Inr (st', row) \<Rightarrow>
          (case flt of Some e \<Rightarrow> Inl e | None \<Rightarrow> flush_books flt bs st' (acc @ [row])))"

fun flush_deletes :: "exc option \<Rightarrow> int list \<Rightarrow> store \<Rightarrow> exc + store" where
  "flush_deletes flt [] st = Inr st"
| "flush_deletes flt (k # ks) st =
     (case flt of Some e \<Rightarrow> Inl e | None \<Rightarrow> flush_deletes flt ks (delete_book_row st k))"

definition session_flush :: "session \<Rightarrow> exc + session \<times> book list" where
  "session_flush s =
     (case flush_users (fault_on (fault s) INSERT) (new_users s) (working s) of
        Inl e \<Rightarrow> Inl e
      | Inr st1 \<Rightarrow>
          (case flush_books (fault_on (fault s) INSERT) (new_books s) st1 [] of
             Inl e \<Rightarrow> Inl e
           | Inr (st2, rows) \<Rightarrow>
               (case flush_deletes (fault_on (fault s) DELETE) (deleted_books s) st2 of
                  Inl e \<Rightarrow> Inl e
                | Inr st3 \<Rightarrow>
                    Inr (s\<lparr>working := st3, new_books := [], new_users := [],
                           deleted_books := []\<rparr>, rows))))"

text \<open>
  \<open>session.rollback()\<close>: the transaction in progress is undone and the pending objects
  are dropped. \<open>session.close()\<close> drops the objects of the session, releases the connection
  and marks the session closed. It is not a rollback: what a flush has sent and a failed
  COMMIT has left on the shared connection stays there unless \<open>session.rollback()\<close> ran
  first.
\<close>

definition session_rollback :: "session \<Rightarrow> session" where
  "session_rollback s =
     s\<lparr>working := committed s, new_books := [], new_users := [], deleted_books := []\<rparr>"

definition session_close :: "session \<Rightarrow> session" where
  "session_close s =
     s\<lparr>new_books := [], new_users := [], deleted_books := [], is_closed := True\<rparr>"

text \<open>
  \<open>session.commit()\<close>: flush, then COMMIT. When the flush raises, the session has already
  undone the database transaction before the exception reaches the caller; the pending
  objects stay with the session. When the COMMIT itself fails, the flushed statements are
  still in \<open>working\<close> when the exception is raised.
\<close>

definition session_commit :: "session \<Rightarrow> exc option \<times> session \<times> book list" where
  "session_commit s =
     (case session_flush s of
        Inl e \<Rightarrow> (Some e, s\<lparr>working := committed s\<rparr>, [])
      | Inr (s1, rows) \<Rightarrow>
          (case fault_on (fault s1) COMMIT of
             Some e \<Rightarrow> (Some e, s1, rows)
           | None \<Rightarrow> (None, s1\<lparr>committed := working s1\<rparr>, rows)))"

section \<open>Transactions and rollback (create_users_transaction, lines 198-220)\<close>

text \<open>
  The body of the \<open>with session.begin():\<close> block is a sequence of statements of two kinds:
  \<open>session.add(User(...))\<close> and \<open>raise\<close>. \<open>exec_stmts\<close> runs such a sequence: a \<open>raise\<close>
  ends it with the exception, and the statements after it are not run.
\<close>

datatype stmt = Add_user user_obj | Raise exc

fun exec_stmts :: "stmt list \<Rightarrow> session \<Rightarrow> exc option \<times> session" where
  "exec_stmts [] s = (None, s)"
| "exec_stmts (Add_user u # rest) s = exec_stmts rest (session_add_user u s)"
| "exec_stmts (Raise e # rest) s = (Some e, s)"

text \<open>
  \<open>with session.begin(): body\<close>. Leaving the block normally commits; leaving it by an
  exception rolls back and lets the exception through. A commit that raises is rolled
  back in the same way.
\<close>

definition with_begin :: "stmt list \<Rightarrow> session \<Rightarrow> exc option \<times> session" where
  "with_begin body s =
     (case exec_stmts body s of
        (Some e, s1) \<Rightarrow> (Some e, session_rollback s1)
      | (None, s1) \<Rightarrow>
          (case session_commit s1 of
             (Some e, s2, rows) \<Rightarrow> (Some e, session_rollback s2)
           | (None, s2, rows) \<Rightarrow> (None, s2)))"

text \<open>The literals of lines 208-218, the Russian ones as their UTF-8 bytes.\<close>

definition user1 :: user_obj where
  "user1 = \<lparr>uo_username = Some ''user1'', uo_email = Some ''user1@example.com''\<rparr>"

definition user2 :: user_obj where
  "user2 = \<lparr>uo_username = Some ''user2'', uo_email = Some ''user2@example.com''\<rparr>"

definition user3 :: user_obj where
  "user3 = \<lparr>uo_username = Some ''user3'', uo_email = Some ''user3@example.com''\<rparr>"

definition utf8 :: "nat list \<Rightarrow> string" where
  "utf8 bs = map char_of bs"

definition injected_message :: string where
  "injected_message = utf8
     [208, 152, 209, 129, 208, 186, 209, 131, 209, 129, 209, 129, 209, 130, 208, 178, 208,
      181, 208, 189, 208, 189, 208, 176, 209, 143, 32, 208, 190, 209, 136, 208, 184, 208,
      177, 208, 186, 208, 176, 32, 208, 191, 209, 128, 208, 184, 32, 208, 180, 208, 190,
      208, 177, 208, 176, 208, 178, 208, 187, 208, 181, 208, 189, 208, 184, 208, 184, 32,
      209, 130, 209, 128, 208, 181, 209, 130, 209, 140, 208, 181, 208, 179, 208, 190, 32,
      208, 191, 208, 190, 208, 187, 209, 140, 208, 183, 208, 190, 208, 178, 208, 176, 209,
      130, 208, 181, 208, 187, 209, 143]"

definition rolled_back_prefix :: string where
  "rolled_back_prefix = utf8
     [208, 162, 209, 128, 208, 176, 208, 189, 208, 183, 208, 176, 208, 186, 209, 134, 208,
      184, 209, 143, 32, 208, 190, 209, 130, 208, 186, 208, 176, 209, 130, 208, 184, 208,
      187, 208, 176, 209, 129, 209, 140, 58, 32]"

definition transaction_body :: "stmt list" where
  "transaction_body =
     [Add_user user1, Add_user user2, Raise (PyException injected_message), Add_user user3]"

text \<open>
  The value the endpoint returns: the dictionary of line 218, or Python's \<open>None\<close> when
  the function runs off its end (there is no other \<open>return\<close>).
\<close>

record response =
  status :: string
  message :: string

definition create_users_transaction :: "(db_op \<times> exc) option \<Rightarrow> store \<Rightarrow> response option \<times> session" where
  "create_users_transaction flt st =
     (case with_begin transaction_body (SessionLocal flt st) of
        (Some e, s) \<Rightarrow>
          (Some \<lparr>status = ''error'', message = rolled_back_prefix @ str_exc e\<rparr>,
           session_close s)
      | (None, s) \<Rightarrow> (None, session_close s))"

section \<open>Repository for Book (BookRepository, lines 80-119)\<close>

text \<open>
  Each method of the repository takes the database as it finds it and returns its outcome
  (\<open>Inl\<close> the exception it raises, \<open>Inr\<close> the value it returns) with the session as it
  leaves it. The parameters have the types the signatures declare: \<open>title: str\<close>,
  \<open>author_id: int\<close>, \<open>book_id: int\<close>.
\<close>

text \<open>
  \<open>session.get(Book, book_id)\<close> selects the row with that primary key and returns it, or
  \<open>None\<close> when there is none. A \<open>book_id\<close> outside the 64-bit range cannot be bound to
  the statement.
\<close>

definition session_get_book :: "session \<Rightarrow> int \<Rightarrow> exc + book option" where
  "session_get_book s k =
     (if \<not> in_int64 k then Inl (OverflowError overflow_message)
      else case fault_on (fault s) SELECT of
             Some e \<Rightarrow> Inl e
           | None \<Rightarrow> Inr (find_book (working s) k))"

text \<open>
  \<open>session.refresh(new_book)\<close> reads the row of the object again by its primary key, and
  raises \<open>InvalidRequestError\<close> when the row is gone, or when the object was never
  flushed (the flush returned no row for it).
\<close>

definition session_refresh :: "session \<Rightarrow> book \<Rightarrow> exc + book" where
  "session_refresh s b =
     (case fault_on (fault s) SELECT of
        Some e \<Rightarrow> Inl e
      | None \<Rightarrow>
          (case find_book (working s) (b_id b) of
             None \<Rightarrow> Inl (InvalidRequestError ''Could not refresh instance'')
           | Some row \<Rightarrow> Inr row))"

text \<open>
  The \<open>except SQLAlchemyError\<close> clause shared by \<open>add_book\<close> and \<open>delete_book\<close>, followed
  by their \<open>finally\<close>: an exception of that class is answered by \<open>session.rollback()\<close> and
  raised again; any other exception passes the clause untouched; in both cases
  \<open>session.close()\<close> runs last.
\<close>

definition except_finally :: "exc \<Rightarrow> session \<Rightarrow> exc \<times> session" where
  "except_finally e s =
     (if is_SQLAlchemyError e then (e, session_close (session_rollback s))
      else (e, session_close s))"

text \<open>
  \<open>add_book\<close> (lines 84-96). The three statements that reach the database are, in this
  order, the INSERT of the flush, the COMMIT, and the SELECT of \<open>session.refresh\<close>; all
  three are inside the \<open>try\<close>.
\<close>

definition add_book ::
    "(db_op \<times> exc) option \<Rightarrow> store \<Rightarrow> string \<Rightarrow> int \<Rightarrow> (exc + book) \<times> session" where
  "add_book flt st title author_id =
     (let session = SessionLocal flt st;
          new_book = \<lparr>bo_title = Some title, bo_author_id = Some author_id\<rparr>;
          s1 = session_add_book new_book session
      in case session_commit s1 of
           (Some e, s2, rows) \<Rightarrow>
             (case except_finally e s2 of (e', s3) \<Rightarrow> (Inl e', s3))
         | (None, s2, rows) \<Rightarrow>
             (case rows of
                [] \<Rightarrow> (case except_finally (InvalidRequestError ''Instance is not persistent'') s2
                       of (e', s3) \<Rightarrow> (Inl e', s3))
              | row # _ \<Rightarrow>
                  (case session_refresh s2 row of
                     Inl e \<Rightarrow> (case except_finally e s2 of (e', s3) \<Rightarrow> (Inl e', s3))
                   | Inr b \<Rightarrow> (Inr b, session_close s2))))"

definition get_books_by_author ::
    "(db_op \<times> exc) option \<Rightarrow> store \<Rightarrow> int \<Rightarrow> book list \<times> session" where
  "get_books_by_author flt st author_id =
     (let session = SessionLocal flt st;
          bs = filter (\<lambda>b. b_author_id b = Some author_id) (books (working session))
      in (bs, session_close session))"

text \<open>
  \<open>delete_book\<close> (lines 106-119). The statements that reach the database are the SELECT
  of \<open>session.get\<close> and, when the book is there, the DELETE of the flush and the COMMIT.
\<close>

definition delete_book ::
    "(db_op \<times> exc) option \<Rightarrow> store \<Rightarrow> int \<Rightarrow> (exc + bool) \<times> session" where
  "delete_book flt st book_id =
     (let session = SessionLocal flt st
      in case session_get_book session book_id of
           Inl e \<Rightarrow> (case except_finally e session of (e', s3) \<Rightarrow> (Inl e', s3))
         | Inr (Some b) \<Rightarrow>
             (case session_commit (session_delete_book b session) of
                (Some e, s2, rows) \<Rightarrow>
                  (case except_finally e s2 of (e', s3) \<Rightarrow> (Inl e', s3))
              | (None, s2, rows) \<Rightarrow> (Inr True, session_close s2))
         | Inr None \<Rightarrow> (Inr False, session_close session))"

text \<open>
  The request schema \<open>BookCreate\<close> (lines 127-129), whose two fields are required and
  typed, and the endpoint \<open>POST /books/add\<close> (lines 247-256), which turns any exception of
  the repository into an HTTP error 400 carrying its text.
\<close>

record BookCreate =
  bc_title :: string
  bc_author_id :: int

datatype http_error = HTTPException int string

definition add_book_endpoint ::
    "(db_op \<times> exc) option \<Rightarrow> store \<Rightarrow> BookCreate \<Rightarrow> (http_error + book) \<times> session" where
  "add_book_endpoint flt st bk =
     (case add_book flt st (bc_title bk) (bc_author_id bk) of
        (Inl e, s) \<Rightarrow> (Inl (HTTPException 400 (str_exc e)), s)
      | (Inr new_book, s) \<Rightarrow> (Inr new_book, s))"

section \<open>Lazy and eager loading (lines 166-193)\<close>

text \<open>One element of the list both endpoints return.\<close>

record author_out =
  ao_id :: int
  ao_name :: string
  ao_books :: "string list"

text \<open>
  The lazy relationship \<open>Author.books\<close> (line 36, \<open>lazy="select"\<close>): reading it runs
  \<open>SELECT ... FROM books WHERE ? = books.author_id\<close> for that author.
\<close>

definition lazy_books :: "store \<Rightarrow> author \<Rightarrow> book list" where
  "lazy_books st a = filter (\<lambda>b. b_author_id b = Some (a_id a)) (books st)"

definition get_authors_lazy ::
    "(db_op \<times> exc) option \<Rightarrow> store \<Rightarrow> author_out list \<times> session" where
  "get_authors_lazy flt st =
     (let session = SessionLocal flt st;
          as = authors (working session);
          result = map (\<lambda>a. \<lparr>ao_id = a_id a, ao_name = a_name a,
                              ao_books = map b_title (lazy_books (working session) a)\<rparr>) as
      in (result, session_close session))"

text \<open>
  \<open>joinedload(Author.books)\<close>: one \<open>SELECT ... FROM authors LEFT OUTER JOIN books ON
  authors.id = books.author_id\<close>. An author without books gives one row with no book.
\<close>

definition left_outer_join :: "author list \<Rightarrow> book list \<Rightarrow> (author \<times> book option) list" where
  "left_outer_join as bs =
     concat (map (\<lambda>a. case filter (\<lambda>b. b_author_id b = Some (a_id a)) bs of
                         [] \<Rightarrow> [(a, None)]
                       | ms \<Rightarrow> map (\<lambda>b. (a, Some b)) ms) as)"

text \<open>
  The ORM turns the joined rows into objects. An author is identified by its primary key:
  the first row of an author makes the object, the later ones add their book to its
  collection; a book already in the collection (again by primary key) is not added twice.
\<close>

definition append_unique :: "book list \<Rightarrow> book option \<Rightarrow> book list" where
  "append_unique bs ob =
     (case ob of
        None \<Rightarrow> bs
      | Some b \<Rightarrow> if b_id b \<in> set (map b_id bs) then bs else bs @ [b])"

fun load_row :: "(author \<times> book list) list \<Rightarrow> author \<times> book option \<Rightarrow> (author \<times> book list) list" where
  "load_row [] (a, ob) = [(a, append_unique [] ob)]"
| "load_row ((a', bs) # rest) (a, ob) =
     (if a_id a' = a_id a then (a', append_unique bs ob) # rest
      else (a', bs) # load_row rest (a, ob))"

definition joined_load :: "(author \<times> book option) list \<Rightarrow> (author \<times> book list) list" where
  "joined_load rows = foldl load_row [] rows"

definition get_authors_eager ::
    "(db_op \<times> exc) option \<Rightarrow> store \<Rightarrow> author_out list \<times> session" where
  "get_authors_eager flt st =
     (let session = SessionLocal flt st;
          loaded = joined_load (left_outer_join (authors (working session))
                                                (books (working session)));
          result = map (\<lambda>(a, bs). \<lparr>ao_id = a_id a, ao_name = a_name a,
                                    ao_books = map b_title bs\<rparr>) loaded
      in (result, session_close session))"

section \<open>Aggregate query (get_authors_book_counts, lines 286-310)\<close>

text \<open>
  \<open>SELECT authors.name, count(books.id) FROM authors JOIN books ON authors.id =
  books.author_id GROUP BY authors.name\<close>. The join is an inner join; the groups are the
  distinct values of \<open>authors.name\<close> among the joined rows; \<open>count(books.id)\<close> counts the
  rows of a group, \<open>books.id\<close> never being null. SQL leaves the order of the groups open;
  the model lists them by first occurrence. The function is read against the SQLAlchemy
  1.4 interface it is written for, where \<open>MetaData(bind=engine)\<close> and \<open>row["name"]\<close>
  exist; the reflection of the two tables reads no data.
\<close>

record count_row =
  cr_author :: string
  cr_book_count :: nat

definition inner_join :: "author list \<Rightarrow> book list \<Rightarrow> (author \<times> book) list" where
  "inner_join as bs =
     concat (map (\<lambda>a. map (\<lambda>b. (a, b)) (filter (\<lambda>b. b_author_id b = Some (a_id a)) bs)) as)"

definition group_by_name_count :: "(author \<times> book) list \<Rightarrow> count_row list" where
  "group_by_name_count rows =
     map (\<lambda>n. \<lparr>cr_author = n,
               cr_book_count = length (filter (\<lambda>(a, b). a_name a = n) rows)\<rparr>)
         (remdups (map (\<lambda>(a, b). a_name a) rows))"

definition get_authors_book_counts :: "store \<Rightarrow> count_row list" where
  "get_authors_book_counts st = group_by_name_count (inner_join (authors st) (books st))"

section \<open>Well-formed stores\<close>

text \<open>
  What the primary keys guarantee of every content the database can have: no two rows of a
  table share an id.
\<close>

definition wf_store :: "store \<Rightarrow> bool" where
  "wf_store st \<longleftrightarrow>
     distinct (map a_id (authors st)) \<and> distinct (map b_id (books st)) \<and>
     distinct (map u_id (users st))"

text \<open>Referential integrity: a book's \<open>author_id\<close>, when set, is the id of an author.\<close>

definition ref_integrity :: "store \<Rightarrow> bool" where
  "ref_integrity st \<longleftrightarrow>
     list_all (\<lambda>b. case b_author_id b of
                     None \<Rightarrow> True
                   | Some k \<Rightarrow> k \<in> set (map a_id (authors st))) (books st)"

section \<open>Auxiliary definitions for the statements\<close>

text \<open>
  The row that \<open>add_book\<close> sends to the database for a title and an author id: the
  \<open>Book(title=title, author_id=author_id)\<close> of line 87 with the id the insert gives it.
\<close>

definition new_row :: "store \<Rightarrow> string \<Rightarrow> int \<Rightarrow> book" where
  "new_row st title author_id =
     \<lparr>b_id = next_id (map b_id (books st)), b_title = title, b_author_id = Some author_id\<rparr>"

text \<open>
  The comparison of section 8 of the specification for the two loading strategies: the
  results are compared as collections of (author name, book titles), with neither the
  order of the authors nor the order of the titles taken into account.
\<close>

definition name_titles :: "author_out list \<Rightarrow> (string \<times> string multiset) multiset" where
  "name_titles rs = mset (map (\<lambda>r. (ao_name r, mset (ao_books r))) rs)"

text \<open>Three small databases on which the statements below are evaluated.\<close>

definition one_book_store :: store where
  "one_book_store =
     \<lparr>authors = [\<lparr>a_id = 1, a_name = ''A''\<rparr>],
      books = [\<lparr>b_id = 1, b_title = ''T'', b_author_id = Some 1\<rparr>], users = []\<rparr>"

definition two_and_zero_store :: store where
  "two_and_zero_store =
     \<lparr>authors = [\<lparr>a_id = 1, a_name = ''Ann''\<rparr>, \<lparr>a_id = 2, a_name = ''Bob''\<rparr>],
      books = [\<lparr>b_id = 1, b_title = ''X'', b_author_id = Some 1\<rparr>,
               \<lparr>b_id = 2, b_title = ''Y'', b_author_id = Some 1\<rparr>],
      users = []\<rparr>"

definition same_name_store :: store where
  "same_name_store =
     \<lparr>authors = [\<lparr>a_id = 1, a_name = ''Ann''\<rparr>, \<lparr>a_id = 2, a_name = ''Ann''\<rparr>],
      books = [\<lparr>b_id = 1, b_title = ''X'', b_author_id = Some 1\<rparr>,
               \<lparr>b_id = 2, b_title = ''Y'', b_author_id = Some 2\<rparr>],
      users = []\<rparr>"

section \<open>The transactional demo operation\<close>

lemma exec_stmts_transaction_body:
  "exec_stmts transaction_body s =
     (Some (PyException injected_message), s\<lparr>new_users := new_users s @ [user1, user2]\<rparr>)"
  by (simp add: transaction_body_def session_add_user_def)

lemma with_begin_transaction_body:
  "with_begin transaction_body s = (Some (PyException injected_message), session_rollback s)"
  by (simp add: with_begin_def exec_stmts_transaction_body session_rollback_def)

lemma create_users_transaction_eq:
  "create_users_transaction flt st =
     (Some \<lparr>status = ''error'', message = rolled_back_prefix @ injected_message\<rparr>,
      (SessionLocal flt st)\<lparr>is_closed := True\<rparr>)"
  by (simp add: create_users_transaction_def with_begin_transaction_body
      session_close_def session_rollback_def SessionLocal_def)

text \<open>
  C1. \<open>create_users_transaction\<close> adds two users to the session and raises before the
  \<open>with session.begin()\<close> block ends. Whatever the database held before and however it
  would have answered a COMMIT, after the call the database holds exactly what it held
  before, both as committed content and on the shared connection; nothing is left pending
  and the session is closed. So neither of the two users exists in the store.
\<close>

theorem create_users_transaction_atomic:
  "committed (snd (create_users_transaction flt st)) = st \<and>
   working (snd (create_users_transaction flt st)) = st \<and>
   new_users (snd (create_users_transaction flt st)) = [] \<and>
   is_closed (snd (create_users_transaction flt st))"
  by (simp add: create_users_transaction_eq SessionLocal_def)

text \<open>
  C9. \<open>create_users_transaction\<close> never returns a success value: for every database and
  every behaviour of the COMMIT it returns the dictionary with status \<open>error\<close>, whose
  message is the prefix of line 218 followed by the text of the exception of line 213.
  The statements after the \<open>raise\<close> do not matter: whatever follows the first three
  statements of the body, the body stops at the \<open>raise\<close> with only \<open>user1\<close> and \<open>user2\<close>
  pending, so \<open>user3\<close> is never added. The table of users is left as it was.
\<close>

theorem create_users_transaction_always_error:
  "fst (create_users_transaction flt st) =
     Some \<lparr>status = ''error'', message = rolled_back_prefix @ injected_message\<rparr> \<and>
   exec_stmts (take 3 transaction_body @ rest) (SessionLocal flt st) =
     (Some (PyException injected_message),
      (SessionLocal flt st)\<lparr>new_users := [user1, user2]\<rparr>) \<and>
   users (committed (snd (create_users_transaction flt st))) = users st \<and>
   users (working (snd (create_users_transaction flt st))) = users st"
  by (simp add: create_users_transaction_eq SessionLocal_def transaction_body_def
      session_add_user_def)

section \<open>The repository\<close>

lemma fold_max_upper: "\<forall>x \<in> set (y # ys). x \<le> fold max ys (y::int)"
proof (induction ys arbitrary: y)
  case Nil
  show ?case by simp
next
  case (Cons z zs)
  have ih: "\<forall>x \<in> set (max z y # zs). x \<le> fold max zs (max z y)" by (rule Cons.IH)
  then have top: "max z y \<le> fold max zs (max z y)" by simp
  have "y \<le> fold max zs (max z y)" and "z \<le> fold max zs (max z y)"
    using top by simp_all
  then show ?case using ih by simp
qed

lemma fold_max_ge: "x \<in> set (y # ys) \<Longrightarrow> x \<le> fold max ys (y::int)"
  using fold_max_upper [of y ys] by blast

lemma next_id_fresh: "next_id xs \<notin> set xs"
proof (cases xs)
  case Nil
  then show ?thesis by simp
next
  case (Cons y ys)
  show ?thesis
  proof
    assume "next_id xs \<in> set xs"
    then have "fold max ys y + 1 \<le> fold max ys y"
      using fold_max_ge [of "next_id xs" y ys] Cons by simp
    then show False by simp
  qed
qed

lemma find_append_fresh:
  "\<forall>x \<in> set xs. \<not> P x \<Longrightarrow> P y \<Longrightarrow> find P (xs @ [y]) = Some y"
  by (induction xs) auto

lemma find_book_new_row:
  "find_book (st\<lparr>books := books st @ [new_row st t a]\<rparr>) (b_id (new_row st t a)) = Some (new_row st t a)"
proof -
  have "\<forall>x \<in> set (books st). b_id x \<noteq> b_id (new_row st t a)"
    using next_id_fresh [of "map b_id (books st)"] by (force simp: new_row_def)
  then show ?thesis
    by (simp add: find_book_def find_append_fresh)
qed

lemma in_int64_small [simp]: "in_int64 1" "in_int64 5" "in_int64 7" "in_int64 9" "in_int64 42"
  by (simp_all add: in_int64_def)

lemma SessionLocal_sel [simp]:
  "committed (SessionLocal flt st) = st" "working (SessionLocal flt st) = st"
  "new_books (SessionLocal flt st) = []" "new_users (SessionLocal flt st) = []"
  "deleted_books (SessionLocal flt st) = []" "fault (SessionLocal flt st) = flt"
  "is_closed (SessionLocal flt st) = False"
  by (simp_all add: SessionLocal_def)

lemma session_commit_add_book:
  assumes "in_int64 a"
  shows "session_commit (session_add_book \<lparr>bo_title = Some t, bo_author_id = Some a\<rparr>
                          (SessionLocal flt st)) =
     (case fault_on flt INSERT of
        Some e \<Rightarrow>
          (Some e, (SessionLocal flt st)
                      \<lparr>new_books := [\<lparr>bo_title = Some t, bo_author_id = Some a\<rparr>]\<rparr>, [])
      | None \<Rightarrow>
          (case fault_on flt COMMIT of
             Some e \<Rightarrow>
               (Some e, (SessionLocal flt st)
                           \<lparr>working := st\<lparr>books := books st @ [new_row st t a]\<rparr>\<rparr>,
                [new_row st t a])
           | None \<Rightarrow>
               (None, (SessionLocal flt st)
                         \<lparr>working := st\<lparr>books := books st @ [new_row st t a]\<rparr>,
                          committed := st\<lparr>books := books st @ [new_row st t a]\<rparr>\<rparr>,
                [new_row st t a])))"
  using assms
  by (simp add: session_commit_def session_flush_def session_add_book_def SessionLocal_def
      insert_book_def new_row_def Let_def split: option.splits)

lemma session_commit_add_book_overflow:
  assumes "\<not> in_int64 a"
  shows "session_commit (session_add_book \<lparr>bo_title = Some t, bo_author_id = Some a\<rparr>
                          (SessionLocal flt st)) =
     (Some (OverflowError overflow_message),
      (SessionLocal flt st)\<lparr>new_books := [\<lparr>bo_title = Some t, bo_author_id = Some a\<rparr>]\<rparr>, [])"
  using assms
  by (simp add: session_commit_def session_flush_def session_add_book_def SessionLocal_def
      insert_book_def)

lemma add_book_overflow:
  "\<not> in_int64 a \<Longrightarrow>
   add_book flt st t a =
     (Inl (OverflowError overflow_message), (SessionLocal flt st)\<lparr>is_closed := True\<rparr>)"
  by (simp add: add_book_def Let_def session_commit_add_book_overflow except_finally_def)
     (simp add: session_close_def SessionLocal_def)

lemma add_book_insert_fault:
  "in_int64 a \<Longrightarrow>
   add_book (Some (INSERT, e)) st t a =
     (Inl e, (SessionLocal (Some (INSERT, e)) st)\<lparr>is_closed := True\<rparr>)"
  by (simp add: add_book_def Let_def session_commit_add_book except_finally_def)
     (simp add: session_close_def session_rollback_def SessionLocal_def)

lemma add_book_commit_fault:
  "in_int64 a \<Longrightarrow> is_SQLAlchemyError e \<Longrightarrow>
   add_book (Some (COMMIT, e)) st t a =
     (Inl e, (SessionLocal (Some (COMMIT, e)) st)\<lparr>is_closed := True\<rparr>)"
  by (simp add: add_book_def Let_def session_commit_add_book except_finally_def)
     (simp add: session_close_def session_rollback_def SessionLocal_def)

lemma add_book_commit_fault_uncaught:
  "in_int64 a \<Longrightarrow> \<not> is_SQLAlchemyError e \<Longrightarrow>
   add_book (Some (COMMIT, e)) st t a =
     (Inl e, (SessionLocal (Some (COMMIT, e)) st)
               \<lparr>working := st\<lparr>books := books st @ [new_row st t a]\<rparr>, is_closed := True\<rparr>)"
  by (simp add: add_book_def Let_def session_commit_add_book except_finally_def)
     (simp add: session_close_def session_rollback_def SessionLocal_def)

lemma add_book_select_fault:
  "in_int64 a \<Longrightarrow>
   add_book (Some (SELECT, e)) st t a =
     (Inl e, (SessionLocal (Some (SELECT, e)) st)
               \<lparr>committed := st\<lparr>books := books st @ [new_row st t a]\<rparr>,
                working := st\<lparr>books := books st @ [new_row st t a]\<rparr>, is_closed := True\<rparr>)"
  by (simp add: add_book_def Let_def session_commit_add_book session_refresh_def
      except_finally_def session_close_def session_rollback_def)

lemma add_book_no_fault:
  "in_int64 a \<Longrightarrow> flt = None \<or> flt = Some (DELETE, e) \<Longrightarrow>
   add_book flt st t a =
     (Inr (new_row st t a),
      (SessionLocal flt st)
         \<lparr>committed := st\<lparr>books := books st @ [new_row st t a]\<rparr>,
          working := st\<lparr>books := books st @ [new_row st t a]\<rparr>, is_closed := True\<rparr>)"
  using find_book_new_row [of st t a]
  by (auto simp: add_book_def Let_def session_commit_add_book session_refresh_def)
     (simp_all add: session_close_def SessionLocal_def)

lemma add_book_ok:
  "in_int64 a \<Longrightarrow>
   add_book None st t a =
     (Inr (new_row st t a),
      \<lparr>committed = st\<lparr>books := books st @ [new_row st t a]\<rparr>,
       working = st\<lparr>books := books st @ [new_row st t a]\<rparr>,
       new_books = [], new_users = [], deleted_books = [], is_closed = True, fault = None\<rparr>)"
  by (simp add: add_book_no_fault [of a None] SessionLocal_def)

lemma add_book_success:
  assumes "fst (add_book flt st t a) = Inr b"
  shows "b = new_row st t a \<and>
         committed (snd (add_book flt st t a)) = st\<lparr>books := books st @ [new_row st t a]\<rparr>"
proof (cases "in_int64 a")
  case False
  then show ?thesis using assms by (simp add: add_book_overflow)
next
  case True
  show ?thesis
  proof (cases flt)
    case None
    then show ?thesis using assms True by (simp add: add_book_ok)
  next
    case (Some f)
    obtain op e where f: "f = (op, e)" by (cases f)
    show ?thesis
    proof (cases op)
      case INSERT
      then show ?thesis using assms True Some f by (simp add: add_book_insert_fault)
    next
      case DELETE
      then show ?thesis using assms True Some f
        by (simp add: add_book_no_fault [of a "Some (DELETE, e)" e])
    next
      case SELECT
      then show ?thesis using assms True Some f by (simp add: add_book_select_fault)
    next
      case COMMIT
      then show ?thesis using assms True Some f
        by (cases "is_SQLAlchemyError e")
           (simp_all add: add_book_commit_fault add_book_commit_fault_uncaught)
    qed
  qed
qed

lemma get_books_by_author_eq:
  "get_books_by_author flt st a =
     (filter (\<lambda>b. b_author_id b = Some a) (books st),
      \<lparr>committed = st, working = st, new_books = [], new_users = [], deleted_books = [],
       is_closed = True, fault = flt\<rparr>)"
  by (simp add: get_books_by_author_def Let_def SessionLocal_def session_close_def)


text \<open>
  C5. Round trip through the repository: when \<open>add_book\<close> with title \<open>T\<close> and author id
  \<open>A\<close> succeeds and returns a book, that book has title \<open>T\<close> and author id \<open>A\<close>, and
  \<open>get_books_by_author\<close> for \<open>A\<close>, run on the database the call left behind, returns a
  list that contains it.
\<close>

theorem add_then_list_by_author:
  assumes "fst (add_book flt st title author_id) = Inr b"
  shows "b \<in> set (fst (get_books_by_author flt'
                        (committed (snd (add_book flt st title author_id))) author_id)) \<and>
         b_title b = title \<and> b_author_id b = Some author_id"
proof -
  have "b = new_row st title author_id"
    and "committed (snd (add_book flt st title author_id)) =
           st\<lparr>books := books st @ [new_row st title author_id]\<rparr>"
    using add_book_success [OF assms] by simp_all
  then show ?thesis
    by (simp add: get_books_by_author_eq new_row_def)
qed

theorem add_then_list_by_author_witness:
  "fst (add_book None \<lparr>authors = [], books = [], users = []\<rparr> ''T'' 5) =
     Inr \<lparr>b_id = 1, b_title = ''T'', b_author_id = Some 5\<rparr> \<and>
   \<lparr>b_id = 1, b_title = ''T'', b_author_id = Some 5\<rparr>
     \<in> set (fst (get_books_by_author None
          (committed (snd (add_book None \<lparr>authors = [], books = [], users = []\<rparr> ''T'' 5))) 5))"
proof -
  have h: "fst (add_book None \<lparr>authors = [], books = [], users = []\<rparr> ''T'' 5) =
     Inr \<lparr>b_id = 1, b_title = ''T'', b_author_id = Some 5\<rparr>"
    by (simp add: add_book_ok new_row_def)
  show ?thesis using h add_then_list_by_author [OF h, of None] by simp
qed


lemma session_commit_delete_book:
  "session_commit (session_delete_book b (SessionLocal flt st)) =
     (case fault_on flt DELETE of
        Some e \<Rightarrow> (Some e, (SessionLocal flt st)\<lparr>deleted_books := [b_id b]\<rparr>, [])
      | None \<Rightarrow>
          (case fault_on flt COMMIT of
             Some e \<Rightarrow>
               (Some e, (SessionLocal flt st)\<lparr>working := delete_book_row st (b_id b)\<rparr>, [])
           | None \<Rightarrow>
               (None, (SessionLocal flt st)\<lparr>working := delete_book_row st (b_id b),
                         committed := delete_book_row st (b_id b)\<rparr>, [])))"
  by (simp add: session_commit_def session_flush_def session_delete_book_def SessionLocal_def
      split: option.splits)

lemma find_book_None: "find_book st k = None \<longleftrightarrow> k \<notin> set (map b_id (books st))"
  by (auto simp: find_book_def find_None_iff)

lemma find_book_Some_id: "find_book st k = Some b \<Longrightarrow> b_id b = k"
  by (auto simp: find_book_def find_Some_iff)




lemma delete_book_write_fault:
  assumes "in_int64 k" and "k \<in> set (map b_id (books st))" and "is_SQLAlchemyError e"
    and "op = DELETE \<or> op = COMMIT"
  shows "delete_book (Some (op, e)) st k =
     (Inl e, (SessionLocal (Some (op, e)) st)\<lparr>is_closed := True\<rparr>)"
proof -
  obtain b where b: "find_book st k = Some b"
    using assms(2) find_book_None [of st k] by (cases "find_book st k") auto
  show ?thesis
    using b find_book_Some_id [OF b] assms(1,3,4)
    by (auto simp: delete_book_def Let_def session_get_book_def session_commit_delete_book
        except_finally_def session_close_def session_rollback_def)
qed




lemma add_book_failure_before_commit:
  assumes "is_SQLAlchemyError e" and "in_int64 author_id" and "op = INSERT \<or> op = COMMIT"
  shows "add_book (Some (op, e)) st title author_id =
           (Inl e, (SessionLocal (Some (op, e)) st)\<lparr>is_closed := True\<rparr>)"
  using assms by (auto simp: add_book_insert_fault add_book_commit_fault)

text \<open>
  C7. When the database fails with a \<open>SQLAlchemyError\<close> at the INSERT or at the COMMIT,
  \<open>add_book\<close> raises it with the database as it was. The SELECT of \<open>session.refresh\<close>
  (line 90) is inside the same \<open>try\<close> and comes after the COMMIT: when the database fails
  there, on an empty database and with title \<open>T\<close> and author id 5, the call raises that
  \<open>SQLAlchemyError\<close> and closes the session, and the book is in the database all the same:
  the rollback of the \<open>except\<close> clause has nothing left to undo.
\<close>

theorem add_book_refresh_failure_persists:
  "is_SQLAlchemyError (OperationalError ''connection lost'') \<and>
   fst (add_book (Some (SELECT, OperationalError ''connection lost''))
          \<lparr>authors = [], books = [], users = []\<rparr> ''T'' 5) =
     Inl (OperationalError ''connection lost'') \<and>
   books (committed (snd (add_book (Some (SELECT, OperationalError ''connection lost''))
          \<lparr>authors = [], books = [], users = []\<rparr> ''T'' 5))) =
     [\<lparr>b_id = 1, b_title = ''T'', b_author_id = Some 5\<rparr>] \<and>
   committed (snd (add_book (Some (SELECT, OperationalError ''connection lost''))
          \<lparr>authors = [], books = [], users = []\<rparr> ''T'' 5)) \<noteq>
     \<lparr>authors = [], books = [], users = []\<rparr> \<and>
   is_closed (snd (add_book (Some (SELECT, OperationalError ''connection lost''))
          \<lparr>authors = [], books = [], users = []\<rparr> ''T'' 5))"
  by (simp add: add_book_select_fault new_row_def)

text \<open>
  C3. Line 43 declares \<open>author_id\<close> a foreign key into \<open>authors\<close>, but nothing enforces it.
  In an empty database, which has referential integrity, \<open>add_book\<close> with title \<open>T\<close> and
  author id 42 succeeds, returns the book and persists it, although no author has the id
  42; the database it leaves has lost referential integrity.
\<close>

theorem add_book_persists_dangling_author:
  "ref_integrity \<lparr>authors = [], books = [], users = []\<rparr> \<and>
   42 \<notin> set (map a_id (authors \<lparr>authors = [], books = [], users = []\<rparr>)) \<and>
   fst (add_book None \<lparr>authors = [], books = [], users = []\<rparr> ''T'' 42) =
     Inr \<lparr>b_id = 1, b_title = ''T'', b_author_id = Some 42\<rparr> \<and>
   books (committed (snd (add_book None \<lparr>authors = [], books = [], users = []\<rparr> ''T'' 42))) =
     [\<lparr>b_id = 1, b_title = ''T'', b_author_id = Some 42\<rparr>] \<and>
   \<not> ref_integrity
       (committed (snd (add_book None \<lparr>authors = [], books = [], users = []\<rparr> ''T'' 42)))"
  by (simp add: add_book_ok new_row_def ref_integrity_def)

text \<open>
  C10. A book that \<open>add_book\<close> returns has its \<open>author_id\<close> set, to the integer the
  caller gave, and it is the row the call appended to the table; the same holds through
  the endpoint, whose \<open>BookCreate\<close> carries a required integer. The table itself accepts
  a book without an author: the insert of a \<open>Book\<close> object whose \<open>author_id\<close> is \<open>None\<close>
  succeeds and stores a row with a null \<open>author_id\<close>.
\<close>

theorem add_book_author_id_set:
  "(fst (add_book flt st title author_id) = Inr b \<longrightarrow>
      b_author_id b = Some author_id \<and>
      books (committed (snd (add_book flt st title author_id))) = books st @ [b]) \<and>
   (fst (add_book_endpoint flt st bk) = Inr b' \<longrightarrow>
      b_author_id b' = Some (bc_author_id bk)) \<and>
   insert_book st \<lparr>bo_title = Some title, bo_author_id = None\<rparr> =
     Inr (st\<lparr>books := books st @
                [\<lparr>b_id = next_id (map b_id (books st)), b_title = title, b_author_id = None\<rparr>]\<rparr>,
          \<lparr>b_id = next_id (map b_id (books st)), b_title = title, b_author_id = None\<rparr>)"
proof (intro conjI impI)
  assume a: "fst (add_book flt st title author_id) = Inr b"
  have b: "b = new_row st title author_id"
    and c: "committed (snd (add_book flt st title author_id)) =
              st\<lparr>books := books st @ [new_row st title author_id]\<rparr>"
    using add_book_success [OF a] by simp_all
  show "b_author_id b = Some author_id" by (simp add: b new_row_def)
  show "books (committed (snd (add_book flt st title author_id))) = books st @ [b]"
    by (simp add: b c)
next
  assume a: "fst (add_book_endpoint flt st bk) = Inr b'"
  obtain r s where rs: "add_book flt st (bc_title bk) (bc_author_id bk) = (r, s)"
    by (cases "add_book flt st (bc_title bk) (bc_author_id bk)")
  have "r = Inr b'"
    using a rs by (cases r) (simp_all add: add_book_endpoint_def)
  then have "fst (add_book flt st (bc_title bk) (bc_author_id bk)) = Inr b'"
    using rs by simp
  then have "b' = new_row st (bc_title bk) (bc_author_id bk)"
    using add_book_success by blast
  then show "b_author_id b' = Some (bc_author_id bk)" by (simp add: new_row_def)
next
  show "insert_book st \<lparr>bo_title = Some title, bo_author_id = None\<rparr> =
     Inr (st\<lparr>books := books st @
                [\<lparr>b_id = next_id (map b_id (books st)), b_title = title, b_author_id = None\<rparr>]\<rparr>,
          \<lparr>b_id = next_id (map b_id (books st)), b_title = title, b_author_id = None\<rparr>)"
    by (simp add: insert_book_def Let_def)
qed

theorem add_book_author_id_set_witness:
  "fst (add_book None one_book_store ''U'' 1) =
     Inr \<lparr>b_id = 2, b_title = ''U'', b_author_id = Some 1\<rparr> \<and>
   b_author_id \<lparr>b_id = 2, b_title = ''U'', b_author_id = Some 1\<rparr> = Some 1 \<and>
   fst (add_book_endpoint None one_book_store \<lparr>bc_title = ''U'', bc_author_id = 1\<rparr>) =
     Inr \<lparr>b_id = 2, b_title = ''U'', b_author_id = Some 1\<rparr> \<and>
   books (committed (snd (add_book None one_book_store ''U'' 1))) =
     books one_book_store @ [\<lparr>b_id = 2, b_title = ''U'', b_author_id = Some 1\<rparr>]"
proof -
  have h: "fst (add_book None one_book_store ''U'' 1) =
     Inr \<lparr>b_id = 2, b_title = ''U'', b_author_id = Some 1\<rparr>"
    by (simp add: add_book_ok new_row_def one_book_store_def)
  have h': "fst (add_book_endpoint None one_book_store \<lparr>bc_title = ''U'', bc_author_id = 1\<rparr>) =
     Inr \<lparr>b_id = 2, b_title = ''U'', b_author_id = Some 1\<rparr>"
    by (simp add: add_book_endpoint_def add_book_ok new_row_def one_book_store_def)
  show ?thesis
    using h h'
      add_book_author_id_set [of None one_book_store "''U''" 1
        "\<lparr>b_id = 2, b_title = ''U'', b_author_id = Some 1\<rparr>"
        "\<lparr>bc_title = ''U'', bc_author_id = 1\<rparr>"
        "\<lparr>b_id = 2, b_title = ''U'', b_author_id = Some 1\<rparr>"]
    by simp
qed

section \<open>Loading strategies and the aggregate query\<close>

lemma load_row_fresh:
  "a_id a \<notin> set (map (a_id \<circ> fst) acc) \<Longrightarrow>
   load_row acc (a, ob) = acc @ [(a, append_unique [] ob)]"
  by (induction acc) auto

lemma load_row_last:
  "a_id a \<notin> set (map (a_id \<circ> fst) acc) \<Longrightarrow>
   load_row (acc @ [(a, cs)]) (a, ob) = acc @ [(a, append_unique cs ob)]"
  by (induction acc) auto

lemma foldl_load_books:
  "a_id a \<notin> set (map (a_id \<circ> fst) acc) \<Longrightarrow> distinct (map b_id (cs @ ms)) \<Longrightarrow>
   foldl load_row (acc @ [(a, cs)]) (map (\<lambda>b. (a, Some b)) ms) = acc @ [(a, cs @ ms)]"
proof (induction ms arbitrary: cs)
  case Nil
  then show ?case by simp
next
  case (Cons m ms)
  have fresh: "b_id m \<notin> set (map b_id cs)" using Cons.prems(2) by auto
  have step: "load_row (acc @ [(a, cs)]) (a, Some m) = acc @ [(a, cs @ [m])]"
    using fresh by (simp add: load_row_last [OF Cons.prems(1)] append_unique_def)
  have "distinct (map b_id ((cs @ [m]) @ ms))" using Cons.prems(2) by simp
  then have "foldl load_row (acc @ [(a, cs @ [m])]) (map (\<lambda>b. (a, Some b)) ms) =
             acc @ [(a, (cs @ [m]) @ ms)]"
    by (rule Cons.IH [OF Cons.prems(1)])
  then show ?case by (simp add: step)
qed

lemma foldl_load_author:
  assumes "a_id a \<notin> set (map (a_id \<circ> fst) acc)" and "distinct (map b_id bs)"
  shows "foldl load_row acc
           (case filter P bs of [] \<Rightarrow> [(a, None)] | ms \<Rightarrow> map (\<lambda>b. (a, Some b)) ms) =
         acc @ [(a, filter P bs)]"
proof (cases "filter P bs")
  case Nil
  then show ?thesis by (simp add: load_row_fresh [OF assms(1)] append_unique_def)
next
  case (Cons m ms)
  have "distinct (map b_id (filter P bs))" using assms(2) by (rule distinct_map_filter)
  then have d: "distinct (map b_id ([m] @ ms))" by (simp add: Cons)
  have first: "load_row acc (a, Some m) = acc @ [(a, [m])]"
    by (simp add: load_row_fresh [OF assms(1)] append_unique_def)
  show ?thesis
    using foldl_load_books [OF assms(1) d]
    by (simp add: Cons first)
qed

lemma joined_load_join:
  "distinct (map a_id as) \<Longrightarrow> set (map a_id as) \<inter> set (map (a_id \<circ> fst) acc) = {} \<Longrightarrow>
   distinct (map b_id bs) \<Longrightarrow>
   foldl load_row acc (left_outer_join as bs) =
     acc @ map (\<lambda>a. (a, filter (\<lambda>b. b_author_id b = Some (a_id a)) bs)) as"
proof (induction as arbitrary: acc)
  case Nil
  then show ?case by (simp add: left_outer_join_def)
next
  case (Cons a as)
  let ?P = "\<lambda>b. b_author_id b = Some (a_id a)"
  have fresh: "a_id a \<notin> set (map (a_id \<circ> fst) acc)" using Cons.prems(2) by auto
  have one: "foldl load_row acc
           (case filter ?P bs of [] \<Rightarrow> [(a, None)] | ms \<Rightarrow> map (\<lambda>b. (a, Some b)) ms) =
         acc @ [(a, filter ?P bs)]"
    using fresh Cons.prems(3) by (rule foldl_load_author)
  have d: "distinct (map a_id as)" using Cons.prems(1) by simp
  have disj: "set (map a_id as) \<inter> set (map (a_id \<circ> fst) (acc @ [(a, filter ?P bs)])) = {}"
    using Cons.prems(1,2) by auto
  have rest: "foldl load_row (acc @ [(a, filter ?P bs)]) (left_outer_join as bs) =
     (acc @ [(a, filter ?P bs)]) @
       map (\<lambda>a. (a, filter (\<lambda>b. b_author_id b = Some (a_id a)) bs)) as"
    using d disj Cons.prems(3) by (rule Cons.IH)
  have split: "left_outer_join (a # as) bs =
      (case filter ?P bs of [] \<Rightarrow> [(a, None)] | ms \<Rightarrow> map (\<lambda>b. (a, Some b)) ms) @
      left_outer_join as bs"
    by (simp add: left_outer_join_def)
  show ?case
    by (simp only: split foldl_append one rest) simp
qed

lemma get_authors_lazy_eq:
  "fst (get_authors_lazy flt st) =
     map (\<lambda>a. \<lparr>ao_id = a_id a, ao_name = a_name a,
                ao_books = map b_title (filter (\<lambda>b. b_author_id b = Some (a_id a)) (books st))\<rparr>)
         (authors st)"
  by (simp add: get_authors_lazy_def Let_def SessionLocal_def lazy_books_def)

lemma get_authors_eager_eq:
  assumes "wf_store st"
  shows "fst (get_authors_eager flt st) =
     map (\<lambda>a. \<lparr>ao_id = a_id a, ao_name = a_name a,
                ao_books = map b_title (filter (\<lambda>b. b_author_id b = Some (a_id a)) (books st))\<rparr>)
         (authors st)"
proof -
  have "joined_load (left_outer_join (authors st) (books st)) =
        map (\<lambda>a. (a, filter (\<lambda>b. b_author_id b = Some (a_id a)) (books st))) (authors st)"
    using assms joined_load_join [of "authors st" "[]" "books st"]
    by (simp add: joined_load_def wf_store_def)
  then show ?thesis
    by (simp add: get_authors_eager_def Let_def SessionLocal_def comp_def)
qed

text \<open>
  C2. For every database whose primary keys are unique, \<open>get_authors_lazy\<close> and
  \<open>get_authors_eager\<close> return equivalent data: the same collection of author names with
  the same titles for each, compared without regard to order. In the model they even
  return the same list.
\<close>

theorem lazy_eager_equivalent:
  assumes "wf_store st"
  shows "name_titles (fst (get_authors_lazy flt st)) =
           name_titles (fst (get_authors_eager flt' st)) \<and>
         fst (get_authors_lazy flt st) = fst (get_authors_eager flt' st)"
  by (simp add: get_authors_lazy_eq get_authors_eager_eq [OF assms])

theorem lazy_eager_equivalent_witness:
  "wf_store two_and_zero_store \<and>
   fst (get_authors_eager None two_and_zero_store) =
     [\<lparr>ao_id = 1, ao_name = ''Ann'', ao_books = [''X'', ''Y'']\<rparr>,
      \<lparr>ao_id = 2, ao_name = ''Bob'', ao_books = []\<rparr>] \<and>
   name_titles (fst (get_authors_lazy None two_and_zero_store)) =
     name_titles (fst (get_authors_eager None two_and_zero_store))"
proof -
  have h: "wf_store two_and_zero_store"
    by (simp add: wf_store_def two_and_zero_store_def)
  have e: "fst (get_authors_lazy None two_and_zero_store) =
     [\<lparr>ao_id = 1, ao_name = ''Ann'', ao_books = [''X'', ''Y'']\<rparr>,
      \<lparr>ao_id = 2, ao_name = ''Bob'', ao_books = []\<rparr>]"
    by (simp add: get_authors_lazy_eq two_and_zero_store_def)
  show ?thesis
    using h e lazy_eager_equivalent [OF h, of None None] by simp
qed

lemma length_two: "length xs = 2 \<Longrightarrow> \<exists>x y. xs = [x, y]"
  by (cases xs; cases "tl xs") auto

text \<open>
  C4. In a database with two authors, of which the first has exactly two books and the
  second has none, \<open>get_authors_book_counts\<close> returns exactly one row: the name of the
  first author with a count of 2. The second author takes part in no row of the join, and
  its name, when it differs from the first author's, occurs in no row of the result.
\<close>

theorem book_counts_two_and_zero:
  assumes "authors st = [a, b] \<or> authors st = [b, a]"
    and "length (filter (\<lambda>x. b_author_id x = Some (a_id a)) (books st)) = 2"
    and "filter (\<lambda>x. b_author_id x = Some (a_id b)) (books st) = []"
  shows "get_authors_book_counts st = [\<lparr>cr_author = a_name a, cr_book_count = 2\<rparr>] \<and>
         b \<notin> fst ` set (inner_join (authors st) (books st)) \<and>
         (a_name b \<noteq> a_name a \<longrightarrow>
            a_name b \<notin> set (map cr_author (get_authors_book_counts st)))"
proof -
  obtain x y where xy: "filter (\<lambda>x. b_author_id x = Some (a_id a)) (books st) = [x, y]"
    using length_two [OF assms(2)] by blast
  have ab: "a \<noteq> b" using assms(3) xy by auto
  have j: "inner_join (authors st) (books st) = [(a, x), (a, y)]"
    using assms(1) by (auto simp: inner_join_def xy assms(3))
  have r: "get_authors_book_counts st = [\<lparr>cr_author = a_name a, cr_book_count = 2\<rparr>]"
    by (simp add: get_authors_book_counts_def j group_by_name_count_def)
  show ?thesis using ab by (simp add: r j)
qed

theorem book_counts_two_and_zero_witness:
  "get_authors_book_counts two_and_zero_store = [\<lparr>cr_author = ''Ann'', cr_book_count = 2\<rparr>] \<and>
   ''Bob'' \<notin> set (map cr_author (get_authors_book_counts two_and_zero_store))"
proof -
  have h1: "authors two_and_zero_store =
              [\<lparr>a_id = 1, a_name = ''Ann''\<rparr>, \<lparr>a_id = 2, a_name = ''Bob''\<rparr>] \<or>
            authors two_and_zero_store =
              [\<lparr>a_id = 2, a_name = ''Bob''\<rparr>, \<lparr>a_id = 1, a_name = ''Ann''\<rparr>]"
    by (simp add: two_and_zero_store_def)
  have h2: "length (filter (\<lambda>x. b_author_id x = Some (a_id \<lparr>a_id = 1, a_name = ''Ann''\<rparr>))
                 (books two_and_zero_store)) = 2"
    by (simp add: two_and_zero_store_def)
  have h3: "filter (\<lambda>x. b_author_id x = Some (a_id \<lparr>a_id = 2, a_name = ''Bob''\<rparr>))
                 (books two_and_zero_store) = []"
    by (simp add: two_and_zero_store_def)
  show ?thesis
    using book_counts_two_and_zero [OF h1 h2 h3] by simp
qed

text \<open>
  C8. The query groups by \<open>authors.name\<close>, which is not unique. In a well-formed database
  with two authors both named \<open>Ann\<close>, each with one book, the join keeps both authors, and
  the result is a single row with a count of 2: the two authors are merged.
\<close>

theorem book_counts_merges_same_name:
  "wf_store same_name_store \<and> ref_integrity same_name_store \<and>
   map (\<lambda>(a, b). (a_id a, b_id b)) (inner_join (authors same_name_store) (books same_name_store)) =
     [(1, 1), (2, 2)] \<and>
   get_authors_book_counts same_name_store = [\<lparr>cr_author = ''Ann'', cr_book_count = 2\<rparr>]"
  by (simp add: same_name_store_def wf_store_def ref_integrity_def inner_join_def
      get_authors_book_counts_def group_by_name_count_def)

end
